theory Spec2Isabelle
  imports Complex_Main "HOL-Library.AList" "HOL-Library.Log_Nat"
begin

section \<open>ForecastIQ: the demand-forecasting routes\<close>

text \<open>
  A shallow embedding of the forecasting route module of the backend: the class
  \<^verbatim>\<open>SimpleForecast\<close>, the helper \<^verbatim>\<open>prepareSalesData\<close> and the handlers of
  \<^verbatim>\<open>POST /generate/:sku\<close> and \<^verbatim>\<open>POST /generate-all\<close>.

  Conventions of the model.
  \<^item> A JavaScript number is a rational number. The predictors of \<^verbatim>\<open>SimpleForecast\<close>
    compute over the exact rationals. The arithmetic of the handlers (the sum of the
    forecast, the daily average, the reorder advisory) is IEEE double arithmetic, each
    operation rounded to the nearest double. \<^verbatim>\<open>NaN\<close>, the infinities and magnitudes
    from \<open>2^1024\<close> on are outside the model. \<^verbatim>\<open>Math.round\<close> rounds halves upwards,
    as \<^const>\<open>round\<close> does; \<^verbatim>\<open>Math.floor\<close> and \<^verbatim>\<open>Math.ceil\<close> are \<^const>\<open>floor\<close> and
    \<^const>\<open>ceiling\<close>.
  \<^item> A calendar date (a \<^verbatim>\<open>yyyy-MM-dd\<close> string) is its day number, an \<^typ>\<open>int\<close>: the
    order of the strings is the order of the day numbers. A \<^verbatim>\<open>Date\<close> object is a day
    and a wall-clock time in the time zone of the process.
  \<^item> A count of days or of periods handed to a predictor is a \<^typ>\<open>nat\<close>.
  \<^item> An exception is a value: a function that can throw returns \<open>error + 'a\<close>.
\<close>

subsection \<open>JavaScript helpers\<close>

datatype error =
    MeanRequiresData   \<comment> \<open>simple-statistics: "mean requires at least one data point"\<close>
  | ReduceOfEmptyArray \<comment> \<open>\<^verbatim>\<open>TypeError\<close> of \<^verbatim>\<open>reduce\<close> without initial value\<close>

text \<open>\<^verbatim>\<open>xs[i]\<close>: \<^verbatim>\<open>undefined\<close> (here \<open>None\<close>) out of range.\<close>

definition js_index :: "'a list \<Rightarrow> nat \<Rightarrow> 'a option" where
  "js_index xs i = (if i < length xs then Some (xs ! i) else None)"

text \<open>\<^verbatim>\<open>v || d\<close> on a number: \<open>d\<close> replaces the falsy number \<open>0\<close>.\<close>

definition num_or :: "rat \<Rightarrow> rat \<Rightarrow> rat" where
  "num_or v d = (if v = 0 then d else v)"

text \<open>\<^verbatim>\<open>v || d\<close> on a possibly undefined number.\<close>

definition opt_or :: "rat option \<Rightarrow> rat \<Rightarrow> rat" where
  "opt_or v d = (case v of None \<Rightarrow> d | Some x \<Rightarrow> num_or x d)"

text \<open>
  \<^verbatim>\<open>xs.slice(-p)\<close> for \<open>p \<ge> 0\<close>: the last \<open>p\<close> elements (all of them when the array
  is shorter); \<^verbatim>\<open>slice(-0)\<close> is \<^verbatim>\<open>slice(0)\<close>, the whole array.
\<close>

definition slice_neg :: "nat \<Rightarrow> 'a list \<Rightarrow> 'a list" where
  "slice_neg p xs = (if p = 0 then xs else drop (length xs - p) xs)"

text \<open>
  \<^verbatim>\<open>mean\<close> of the package simple-statistics (version 7, a dependency, not part of
  the repository): the sum divided by the length; it throws on the empty array.
\<close>

definition mean :: "rat list \<Rightarrow> error + rat" where
  "mean x = (if length x = 0 then Inl MeanRequiresData
             else Inr (sum_list x / of_nat (length x)))"

text \<open>Running a list of computations up to the first exception.\<close>

fun message :: "error \<Rightarrow> string" where
  "message MeanRequiresData = ''mean requires at least one data point''"
| "message ReduceOfEmptyArray = ''Reduce of empty array with no initial value''"

fun collect :: "(error + 'a) list \<Rightarrow> error + 'a list" where
  "collect [] = Inr []"
| "collect (Inl e # rs) = Inl e"
| "collect (Inr v # rs) = (case collect rs of Inl e \<Rightarrow> Inl e | Inr vs \<Rightarrow> Inr (v # vs))"

subsection \<open>Double-precision arithmetic\<close>

text \<open>
  The arithmetic of the handlers is the machine's: \<^verbatim>\<open>+\<close>, \<^verbatim>\<open>-\<close>, \<^verbatim>\<open>*\<close> and \<^verbatim>\<open>/\<close> on
  IEEE 754 doubles, each the exact result rounded to the nearest double, a tie going
  to the even significand. \<open>to_double\<close> is that rounding on the rationals: 53 bits of
  significand, exponents from \<open>-1022\<close> (below it the subnormal spacing \<open>2^-1074\<close>).
\<close>

definition two_to :: "int \<Rightarrow> rat" where
  "two_to e = (if 0 \<le> e then 2 ^ nat e else 1 / 2 ^ nat (- e))"

text \<open>The exponent \<open>e\<close> with \<open>2^e \<le> a < 2^(e+1)\<close>, for \<open>a > 0\<close>.\<close>

definition binade :: "rat \<Rightarrow> int" where
  "binade a =
     (case quotient_of a of (p, q) \<Rightarrow>
        (let d = bitlen p - bitlen q in if two_to d \<le> a then d else d - 1))"

definition nearest_even :: "rat \<Rightarrow> int" where
  "nearest_even m =
     (let f = \<lfloor>m\<rfloor>; r = m - of_int f
      in if r < 1 / 2 then f else if r > 1 / 2 then f + 1
         else if even f then f else f + 1)"

definition to_double :: "rat \<Rightarrow> rat" where
  "to_double x =
     (if x = 0 then 0
      else (let a = \<bar>x\<bar>;
                e = max (binade a) (- 1022);
                ulp = two_to (e - 52)
            in sgn x * of_int (nearest_even (a / ulp)) * ulp))"

text \<open>
  The four operations. An operand that is not a double (a value of the exact
  predictors, such as \<open>7/3\<close>) is read as the double nearest to it, which is what the
  array of the source holds.
\<close>

definition js_add :: "rat \<Rightarrow> rat \<Rightarrow> rat" where
  "js_add x y = to_double (to_double x + to_double y)"

definition js_sub :: "rat \<Rightarrow> rat \<Rightarrow> rat" where
  "js_sub x y = to_double (to_double x - to_double y)"

definition js_mul :: "rat \<Rightarrow> rat \<Rightarrow> rat" where
  "js_mul x y = to_double (to_double x * to_double y)"

definition js_div :: "rat \<Rightarrow> rat \<Rightarrow> rat" where
  "js_div x y = to_double (to_double x / to_double y)"

text \<open>\<^verbatim>\<open>forecast.reduce((sum, value) => sum + value, 0)\<close>\<close>

definition reduce_sum :: "rat list \<Rightarrow> rat" where
  "reduce_sum fc = fold (\<lambda>v s. js_add s v) fc 0"

subsection \<open>The class SimpleForecast\<close>

text \<open>\<^verbatim>\<open>static movingAverage(data, periods = 7)\<close>\<close>

definition movingAverage :: "rat list \<Rightarrow> nat \<Rightarrow> error + rat" where
  "movingAverage data periods =
     (if length data < periods
      then Inr (if length data > 0 then data ! (length data - 1) else 0)
      else mean (slice_neg periods data))"

text \<open>
  The regression of \<^verbatim>\<open>linearTrend\<close> comes from simple-statistics:
  \<^verbatim>\<open>linearRegressionLine(linearRegression(regressionData))\<close>. The model takes it as a
  parameter \<open>fit\<close>, from the list of points to the fitted line, \<open>None\<close> when the
  library throws; every result below holds for every \<open>fit\<close>.
\<close>

type_synonym regression = "(rat \<times> rat) list \<Rightarrow> (rat \<Rightarrow> rat) option"

text \<open>
  Modelled from the spec: the library's least-squares fit, which is not in the
  repository ("ordinary least-squares fit over (index, value) pairs"; "evaluate the
  fitted line"). It is used to instantiate \<open>fit\<close> at concrete inputs.
\<close>

definition linearRegression :: "(rat \<times> rat) list \<Rightarrow> rat \<times> rat" where
  "linearRegression pts =
     (let n = of_nat (length pts);
          sumX = sum_list (map fst pts);
          sumY = sum_list (map snd pts);
          sumXX = sum_list (map (\<lambda>p. fst p * fst p) pts);
          sumXY = sum_list (map (\<lambda>p. fst p * snd p) pts);
          m = (n * sumXY - sumX * sumY) / (n * sumXX - sumX * sumX);
          b = sumY / n - m * sumX / n
      in (m, b))"

definition leastSquares :: regression where
  "leastSquares pts = (case linearRegression pts of (m, b) \<Rightarrow> Some (\<lambda>x. b + m * x))"

text \<open>\<^verbatim>\<open>data.map((value, index) => [index, value])\<close>\<close>

definition regressionData :: "rat list \<Rightarrow> (rat \<times> rat) list" where
  "regressionData data = map (\<lambda>index. (of_nat index, data ! index)) [0..<length data]"

text \<open>\<^verbatim>\<open>static linearTrend(data, forecastDays = 30)\<close>\<close>

definition linearTrend :: "regression \<Rightarrow> rat list \<Rightarrow> nat \<Rightarrow> rat list" where
  "linearTrend fit data forecastDays =
     (if length data < 2
      then replicate forecastDays (if length data > 0 then data ! 0 else 0)
      else (case fit (regressionData data) of
              Some predict \<Rightarrow>
                map (\<lambda>i. let dayIndex = length data + i;
                             predicted = predict (of_nat dayIndex)
                         in max 0 (of_int (round predicted)))
                    [0..<forecastDays]
            | None \<Rightarrow>
                (let lastValue = num_or (data ! (length data - 1)) 0
                 in replicate forecastDays lastValue)))"

text \<open>\<^verbatim>\<open>static exponentialSmoothing(data, alpha = 0.3, forecastDays = 30)\<close>\<close>

definition exponentialSmoothing :: "rat list \<Rightarrow> rat \<Rightarrow> nat \<Rightarrow> rat list" where
  "exponentialSmoothing data alpha forecastDays =
     (if length data = 0 then replicate forecastDays 0
      else if length data = 1 then replicate forecastDays (data ! 0)
      else (let smoothed = fold (\<lambda>x s. alpha * x + (1 - alpha) * s) (tl data) (data ! 0)
            in replicate forecastDays (max 0 (of_int (round smoothed)))))"

text \<open>
  \<^verbatim>\<open>static seasonalNaive(data, seasonLength = 7, forecastDays = 30)\<close>. The index
  \<open>historicalIndex\<close> is never negative, since the loop runs only when
  \<open>length data \<ge> seasonLength\<close>. With \<open>seasonLength = 0\<close> the source reads
  \<^verbatim>\<open>data[NaN]\<close> and the model an index past the end: \<^verbatim>\<open>undefined\<close> both times.
\<close>

definition seasonalNaive :: "rat list \<Rightarrow> nat \<Rightarrow> nat \<Rightarrow> error + rat list" where
  "seasonalNaive data seasonLength forecastDays =
     (if length data < seasonLength
      then (case movingAverage data (length data) of
              Inl e \<Rightarrow> Inl e
            | Inr avgValue \<Rightarrow> Inr (replicate forecastDays (max 0 avgValue)))
      else Inr (map (\<lambda>i. let seasonIndex = i mod seasonLength;
                              historicalIndex = length data - seasonLength + seasonIndex;
                              v = opt_or (js_index data historicalIndex) 0
                          in max 0 v)
                    [0..<forecastDays]))"

text \<open>\<^verbatim>\<open>static combinedForecast(data, forecastDays = 30)\<close>\<close>

definition combinedForecast :: "regression \<Rightarrow> rat list \<Rightarrow> nat \<Rightarrow> error + rat list" where
  "combinedForecast fit data forecastDays =
     (let linear = linearTrend fit data forecastDays;
          exponential = exponentialSmoothing data (3 / 10) forecastDays
      in case seasonalNaive data 7 forecastDays of
           Inl e \<Rightarrow> Inl e
         | Inr seasonal \<Rightarrow>
             (let methods = [linear, exponential, seasonal]
              in collect
                   (map (\<lambda>i. let vs = map (\<lambda>method. opt_or (js_index method i) 0) methods
                             in map_sum id (\<lambda>m. of_int (round m)) (mean vs))
                        [0..<forecastDays])))"

subsection \<open>The normalizer prepareSalesData\<close>

text \<open>A row of the sales ledger, with the two fields the normalizer reads.\<close>

record sale =
  date :: int
  units_sold :: rat

text \<open>
  The object \<^verbatim>\<open>dailySales\<close> is an association list in insertion order, as
  \<^verbatim>\<open>Object.keys\<close> enumerates it. One round of the \<^verbatim>\<open>forEach\<close>: the guard
  \<^verbatim>\<open>if (!dailySales[date]) dailySales[date] = 0\<close>, then the \<^verbatim>\<open>+=\<close>. After the guard
  the key is present, so the \<^verbatim>\<open>+=\<close> never reads \<^verbatim>\<open>undefined\<close>.
\<close>

type_synonym daily = "(int \<times> rat) list"

definition falsy :: "rat option \<Rightarrow> bool" where
  "falsy v = (case v of None \<Rightarrow> True | Some x \<Rightarrow> x = 0)"

definition add_sale :: "sale \<Rightarrow> daily \<Rightarrow> daily" where
  "add_sale r dailySales =
     (let d = date r;
          guarded = (if falsy (map_of dailySales d) then AList.update d 0 dailySales
                     else dailySales);
          current = (case map_of guarded d of Some v \<Rightarrow> v | None \<Rightarrow> 0)
      in AList.update d (current + units_sold r) guarded)"

text \<open>
  Dates. \<^verbatim>\<open>parseISO\<close> of a \<^verbatim>\<open>yyyy-MM-dd\<close> string is midnight of that day in the local
  time of the process, and \<^verbatim>\<open>addDays\<close> keeps the wall-clock time of its argument
  (\<^verbatim>\<open>setDate\<close>). A \<^verbatim>\<open>Date\<close> is modelled by its calendar day and the minutes its wall clock
  shows. Where daylight saving time starts at midnight, the first minutes of the day
  do not exist, and a wall-clock time that falls among them is moved forward by their
  number: a time zone is given by the minutes skipped at the midnight of each day,
  \<open>0\<close> on every ordinary day.
\<close>

type_synonym zone = "int \<Rightarrow> nat"

type_synonym local_time = "int \<times> nat"

definition at_wall_clock :: "zone \<Rightarrow> int \<Rightarrow> nat \<Rightarrow> local_time" where
  "at_wall_clock z d m = (d, if m < z d then m + z d else m)"

definition parseISO :: "zone \<Rightarrow> int \<Rightarrow> local_time" where
  "parseISO z d = at_wall_clock z d 0"

definition addDays :: "zone \<Rightarrow> local_time \<Rightarrow> int \<Rightarrow> local_time" where
  "addDays z t k = (case t of (d, m) \<Rightarrow> at_wall_clock z (d + k) m)"

text \<open>\<^verbatim>\<open>format(t, 'yyyy-MM-dd')\<close>, and \<^verbatim>\<open><=\<close> on two \<^verbatim>\<open>Date\<close>s.\<close>

definition format_day :: "local_time \<Rightarrow> int" where
  "format_day t = fst t"

definition not_after :: "local_time \<Rightarrow> local_time \<Rightarrow> bool" where
  "not_after s t = (fst s < fst t \<or> (fst s = fst t \<and> snd s \<le> snd t))"

text \<open>
  The \<^verbatim>\<open>while (currentDate <= endDate)\<close> loop, pushing
  \<^verbatim>\<open>dailySales[dateStr] || 0\<close> and stepping one day.
\<close>

function walk_days :: "zone \<Rightarrow> daily \<Rightarrow> local_time \<Rightarrow> local_time \<Rightarrow> rat list" where
  "walk_days z dailySales currentDate endDate =
     (if not_after currentDate endDate
      then opt_or (map_of dailySales (format_day currentDate)) 0
             # walk_days z dailySales (addDays z currentDate 1) endDate
      else [])"
  by pat_completeness auto
termination
  by (relation "measure (\<lambda>(z, ds, c, e). nat (fst e + 1 - fst c))")
     (auto simp: not_after_def addDays_def at_wall_clock_def split: prod.splits)

declare walk_days.simps [simp del]

text \<open>\<^verbatim>\<open>prepareSalesData\<close>, run in a process whose time zone is \<open>z\<close>.\<close>

definition prepareSalesData_in :: "zone \<Rightarrow> sale list \<Rightarrow> rat list" where
  "prepareSalesData_in z salesRecords =
     (let dailySales = fold add_sale salesRecords [];
          sortedDates = sort (map fst dailySales)
      in if length sortedDates = 0 then []
         else (let startDate = parseISO z (sortedDates ! 0);
                   endDate = parseISO z (sortedDates ! (length sortedDates - 1))
               in walk_days z dailySales startDate endDate))"

text \<open>
  The handlers below are modelled in a process whose local midnights all exist
  (UTC, or any zone that changes its clocks later in the night).
\<close>

definition prepareSalesData :: "sale list \<Rightarrow> rat list" where
  "prepareSalesData salesRecords = prepareSalesData_in (\<lambda>d. 0) salesRecords"

subsection \<open>The reorder advisory of POST /generate/:sku\<close>

datatype priority = High | Medium | Low

record reorder_suggestion =
  needed :: bool
  currentStock :: rat
  predictedDemand :: rat
  suggestedQuantity :: "int option"
  daysUntilStockout :: "int option"
  daysOfStock :: "int option"
  priority :: "priority option"

text \<open>
  The \<^verbatim>\<open>if (totalPredictedDemand > currentStock) ... else ...\<close> block of the handler;
  a field the object literal does not have is \<open>None\<close>.
\<close>

definition reorderSuggestion :: "rat \<Rightarrow> rat \<Rightarrow> rat \<Rightarrow> rat \<Rightarrow> reorder_suggestion" where
  "reorderSuggestion totalPredictedDemand avgDailyDemand stock reorderLevel =
     (if totalPredictedDemand > stock
      then (let suggestedReorder =
                  \<lceil>js_add (js_sub totalPredictedDemand stock) reorderLevel\<rceil>
            in \<lparr>needed = True,
                currentStock = stock,
                predictedDemand = totalPredictedDemand,
                suggestedQuantity = Some suggestedReorder,
                daysUntilStockout = Some \<lfloor>js_div stock (num_or avgDailyDemand 1)\<rfloor>,
                daysOfStock = None,
                priority = Some (if stock \<le> reorderLevel then High else Medium)\<rparr>)
      else \<lparr>needed = False,
            currentStock = stock,
            predictedDemand = totalPredictedDemand,
            suggestedQuantity = None,
            daysUntilStockout = None,
            daysOfStock = Some \<lfloor>js_div stock (num_or avgDailyDemand 1)\<rfloor>,
            priority = None\<rparr>)"

subsection \<open>The handler of POST /generate/:sku\<close>

record inventory_item =
  item_sku :: string
  item_name :: string
  quantity :: rat
  reorder_level :: rat

record forecast_point =
  point_date :: int
  predicted_demand :: rat
  point_sku :: string

text \<open>
  The request: the route parameter and the body fields \<^verbatim>\<open>days\<close> and \<^verbatim>\<open>method\<close>,
  \<open>None\<close> when the body leaves them out. \<open>req_days\<close> is the whole number that
  \<^verbatim>\<open>parseInt(days)\<close> reads; a body whose \<^verbatim>\<open>days\<close> it cannot read is the matter of
  \<open>post_generate\<close> below. The body's \<^verbatim>\<open>startDate\<close> and \<^verbatim>\<open>endDate\<close> only go to the
  database query.
\<close>

record request =
  req_sku :: string
  req_days :: "int option"
  req_method :: "string option"

text \<open>
  What the handler reads from outside: the rows \<^verbatim>\<open>getSalesData\<close> returns for the
  SKU, the row \<^verbatim>\<open>getInventoryBySku\<close> returns (\<open>None\<close> when it throws) and the clock.
\<close>

record environment =
  salesData :: "sale list"
  currentInventory :: "inventory_item option"
  today :: int

record forecast_result =
  res_sku :: string
  res_method :: string
  requestedMethod :: string
  period_days :: nat
  period_startDate :: "int option"
  period_endDate :: "int option"
  forecast :: "forecast_point list"
  totalPredictedDemand :: rat
  averageDailyDemand :: rat
  peakDay :: forecast_point
  reorder :: "reorder_suggestion option"

datatype response =
    is_Failure: Failure (status: nat) (title: string)
      \<comment> \<open>\<^verbatim>\<open>res.status(n).json({error: ...})\<close>\<close>
  | is_Success: Success (result: forecast_result)
      \<comment> \<open>\<^verbatim>\<open>res.json({success: true, data: ...})\<close>\<close>

text \<open>
  The defaults of the destructuring
  \<^verbatim>\<open>const { days = 30, method = 'combined', ... } = req.body\<close>.
\<close>

definition body_days :: "request \<Rightarrow> int" where
  "body_days req = (case req_days req of None \<Rightarrow> 30 | Some d \<Rightarrow> d)"

definition body_method :: "request \<Rightarrow> string" where
  "body_method req = (case req_method req of None \<Rightarrow> ''combined'' | Some m \<Rightarrow> m)"

text \<open>\<^verbatim>\<open>Math.min(Math.max(parseInt(days), 1), 90)\<close>\<close>

definition clampDays :: "int \<Rightarrow> nat" where
  "clampDays days = nat (min (max days 1) 90)"

text \<open>The \<^verbatim>\<open>switch (method)\<close>: the forecast and \<^verbatim>\<open>forecastMethod\<close>.\<close>

definition dispatch :: "regression \<Rightarrow> string \<Rightarrow> rat list \<Rightarrow> nat \<Rightarrow> (error + rat list) \<times> string" where
  "dispatch fit method timeSeries forecastDays =
     (if method = ''linear''
        then (Inr (linearTrend fit timeSeries forecastDays), ''linear'')
      else if method = ''exponential''
        then (Inr (exponentialSmoothing timeSeries (3 / 10) forecastDays), ''exponential'')
      else if method = ''seasonal''
        then (seasonalNaive timeSeries 7 forecastDays, ''seasonal'')
      else (combinedForecast fit timeSeries forecastDays, ''combined''))"

text \<open>\<^verbatim>\<open>forecast.map((value, index) => ({date: addDays(today, index + 1), ...}))\<close>\<close>

definition forecastData :: "int \<Rightarrow> string \<Rightarrow> rat list \<Rightarrow> forecast_point list" where
  "forecastData now sku fc =
     map (\<lambda>index. \<lparr>point_date = now + (int index + 1),
                    predicted_demand = fc ! index,
                    point_sku = sku\<rparr>)
         [0..<length fc]"

text \<open>
  \<^verbatim>\<open>forecastData.reduce((max, current) => current.predicted_demand >
  max.predicted_demand ? current : max)\<close>, which throws on the empty array.
\<close>

definition peak :: "forecast_point list \<Rightarrow> error + forecast_point" where
  "peak fd =
     (case fd of
        [] \<Rightarrow> Inl ReduceOfEmptyArray
      | p # ps \<Rightarrow>
          Inr (fold (\<lambda>current mx. if predicted_demand current > predicted_demand mx
                                  then current else mx) ps p))"

text \<open>
  The handler. An exception that reaches the outer \<^verbatim>\<open>catch\<close> answers 500. The
  write of the forecast to the database is best effort and changes nothing in the
  answer; the fields \<^verbatim>\<open>historical\<close>, \<^verbatim>\<open>modelInfo\<close> and \<^verbatim>\<open>generatedAt\<close> are left out.
\<close>

definition generate :: "regression \<Rightarrow> environment \<Rightarrow> request \<Rightarrow> response" where
  "generate fit env req =
     (let sku = req_sku req;
          days = body_days req;
          method = body_method req
      in if sku = [] then Failure 400 ''Bad Request''
         else
          (let forecastDays = clampDays days
           in if length (salesData env) = 0 then Failure 404 ''No Data''
              else
               (let timeSeries = prepareSalesData (salesData env)
                in case dispatch fit method timeSeries forecastDays of
                     (Inl e, forecastMethod) \<Rightarrow> Failure 500 ''Internal Server Error''
                   | (Inr fc, forecastMethod) \<Rightarrow>
                      (let fd = forecastData (today env) sku fc;
                           total = reduce_sum fc;
                           avgDailyDemand = js_div total (of_nat forecastDays);
                           suggestion =
                             map_option
                               (\<lambda>inv. reorderSuggestion total avgDailyDemand
                                        (quantity inv) (reorder_level inv))
                               (currentInventory env)
                       in case peak fd of
                            Inl e \<Rightarrow> Failure 500 ''Internal Server Error''
                          | Inr pk \<Rightarrow>
                              Success
                                \<lparr>res_sku = sku,
                                 res_method = forecastMethod,
                                 requestedMethod = method,
                                 period_days = forecastDays,
                                 period_startDate = map_option point_date (js_index fd 0),
                                 period_endDate =
                                   map_option point_date (js_index fd (length fd - 1)),
                                 forecast = fd,
                                 totalPredictedDemand = total,
                                 averageDailyDemand =
                                   js_div (of_int (round (js_mul avgDailyDemand 100))) 100,
                                 peakDay = pk,
                                 reorder = suggestion\<rparr>))))"





subsection \<open>The handler of POST /generate-all\<close>

record batch_entry =
  entry_sku :: string
  entry_name :: string
  entry_currentStock :: rat
  entry_reorderLevel :: rat
  entry_predictedDemand :: rat
  reorderNeeded :: bool
  entry_priority :: priority

text \<open>
  The body of the \<^verbatim>\<open>for (const item of inventory)\<close> loop: what one item adds,
  an entry of \<^verbatim>\<open>errors\<close> (\<open>Inl\<close>) or an entry of \<^verbatim>\<open>forecasts\<close> (\<open>Inr\<close>). \<open>salesOf\<close>
  is \<^verbatim>\<open>getSalesData\<close> by SKU; an exception inside the body is caught and recorded.
\<close>

definition forecast_item ::
  "regression \<Rightarrow> (string \<Rightarrow> sale list) \<Rightarrow> nat \<Rightarrow> inventory_item
     \<Rightarrow> (string \<times> string) + batch_entry" where
  "forecast_item fit salesOf days item =
     (let sales = salesOf (item_sku item)
      in if length sales = 0 then Inl (item_sku item, ''No sales data found'')
         else
          (let timeSeries = prepareSalesData sales
           in case combinedForecast fit timeSeries days of
                Inl e \<Rightarrow> Inl (item_sku item, message e)
              | Inr fc \<Rightarrow>
                  (let total = reduce_sum fc;
                       isNeeded = total > quantity item
                   in Inr \<lparr>entry_sku = item_sku item,
                           entry_name = item_name item,
                           entry_currentStock = quantity item,
                           entry_reorderLevel = reorder_level item,
                           entry_predictedDemand = total,
                           reorderNeeded = isNeeded,
                           entry_priority =
                             (if quantity item \<le> reorder_level item then High
                              else if isNeeded then Medium else Low)\<rparr>)))"

text \<open>One round of the loop on the pair of arrays \<^verbatim>\<open>forecasts\<close> and \<^verbatim>\<open>errors\<close>.\<close>

definition batch_round ::
  "regression \<Rightarrow> (string \<Rightarrow> sale list) \<Rightarrow> nat \<Rightarrow> inventory_item
     \<Rightarrow> batch_entry list \<times> (string \<times> string) list
     \<Rightarrow> batch_entry list \<times> (string \<times> string) list" where
  "batch_round fit salesOf days item acc =
     (case acc of (forecasts, errors) \<Rightarrow>
        (case forecast_item fit salesOf days item of
           Inl err \<Rightarrow> (forecasts, errors @ [err])
         | Inr entry \<Rightarrow> (forecasts @ [entry], errors)))"

text \<open>\<^verbatim>\<open>const priorityOrder = { high: 3, medium: 2, low: 1 }\<close> and the comparator.\<close>

fun priorityOrder :: "priority \<Rightarrow> int" where
  "priorityOrder High = 3"
| "priorityOrder Medium = 2"
| "priorityOrder Low = 1"

definition byPriority :: "batch_entry \<Rightarrow> batch_entry \<Rightarrow> int" where
  "byPriority a b = priorityOrder (entry_priority b) - priorityOrder (entry_priority a)"

text \<open>
  \<^verbatim>\<open>Array.prototype.sort(compare)\<close>, which ECMAScript specifies as stable: an
  insertion sort that puts an element before the first one it does not come after.
\<close>

fun insert_sorted :: "('a \<Rightarrow> 'a \<Rightarrow> int) \<Rightarrow> 'a \<Rightarrow> 'a list \<Rightarrow> 'a list" where
  "insert_sorted compare x [] = [x]"
| "insert_sorted compare x (y # ys) =
     (if compare x y \<le> 0 then x # y # ys else y # insert_sorted compare x ys)"

definition js_sort :: "('a \<Rightarrow> 'a \<Rightarrow> int) \<Rightarrow> 'a list \<Rightarrow> 'a list" where
  "js_sort compare xs = foldr (insert_sorted compare) xs []"

record batch_result =
  totalSkus :: nat
  successfulForecasts :: nat
  errorCount :: nat
  forecasts :: "batch_entry list"
  highPriority :: nat
  mediumPriority :: nat
  reorderNeededCount :: nat
  errorDetails :: "(string \<times> string) list"

datatype batch_response =
    BatchFailure nat string
  | is_BatchSuccess: BatchSuccess (batch: batch_result)

text \<open>
  The handler: \<open>inventory\<close> is \<^verbatim>\<open>getInventory(userId)\<close> and \<open>days\<close> the body's
  \<^verbatim>\<open>days\<close> (30 when left out), handed to the predictor as it is.
\<close>

definition generate_all ::
  "regression \<Rightarrow> inventory_item list \<Rightarrow> (string \<Rightarrow> sale list) \<Rightarrow> nat option
     \<Rightarrow> batch_response" where
  "generate_all fit inventory salesOf requested_days =
     (let days = (case requested_days of None \<Rightarrow> 30 | Some d \<Rightarrow> d)
      in if length inventory = 0 then BatchFailure 404 ''No Data''
         else
          (case fold (batch_round fit salesOf days) inventory ([], []) of
             (unsorted, errors) \<Rightarrow>
               (let sorted_forecasts = js_sort byPriority unsorted
                in BatchSuccess
                     \<lparr>totalSkus = length inventory,
                      successfulForecasts = length sorted_forecasts,
                      errorCount = length errors,
                      forecasts = sorted_forecasts,
                      highPriority =
                        length (filter (\<lambda>f. entry_priority f = High) sorted_forecasts),
                      mediumPriority =
                        length (filter (\<lambda>f. entry_priority f = Medium) sorted_forecasts),
                      reorderNeededCount = length (filter reorderNeeded sorted_forecasts),
                      errorDetails = errors\<rparr>)))"

subsection \<open>The specification's wording\<close>

text \<open>
  The Moving-Average helper as the specification words it: the mean of the last
  \<open>min(periods, len(series))\<close> values, \<open>0\<close> for the empty series.
\<close>

definition movingAverage_spec :: "rat list \<Rightarrow> nat \<Rightarrow> rat" where
  "movingAverage_spec series periods =
     (if series = [] then 0
      else (let k = min periods (length series)
            in sum_list (drop (length series - k) series) / of_nat k))"

text \<open>The sum of the quantities of all observations that share the date \<open>d\<close>.\<close>

definition sold_on :: "int \<Rightarrow> sale list \<Rightarrow> rat" where
  "sold_on d salesRecords =
     sum_list (map units_sold (filter (\<lambda>r. date r = d) salesRecords))"

text \<open>
  The dates the specification gives the forecast points: the \<open>horizonDays\<close>
  consecutive days that start the day after the last observed date.
\<close>

definition days_after_last_observed :: "sale list \<Rightarrow> nat \<Rightarrow> int list" where
  "days_after_last_observed salesRecords horizonDays =
     map (\<lambda>k. Max (date ` set salesRecords) + 1 + int k) [0..<horizonDays]"


text \<open>The entries of \<^verbatim>\<open>forecasts\<close> before the sort, in the order of the inventory.\<close>

definition in_inventory_order ::
  "regression \<Rightarrow> (string \<Rightarrow> sale list) \<Rightarrow> nat \<Rightarrow> inventory_item list \<Rightarrow> batch_entry list" where
  "in_inventory_order fit salesOf days inventory =
     concat (map (\<lambda>item. case forecast_item fit salesOf days item of
                            Inl err \<Rightarrow> [] | Inr entry \<Rightarrow> [entry]) inventory)"

section \<open>Properties\<close>

subsection \<open>Helpers and predictors\<close>

lemma num_or_zero [simp]: "num_or v 0 = v"
  by (simp add: num_or_def)

lemma opt_or_index: "i < length xs \<Longrightarrow> opt_or (js_index xs i) 0 = xs ! i"
  by (simp add: opt_or_def js_index_def)

lemma mean_three: "mean [a, b, c] = Inr ((a + b + c) / 3)"
  by (simp add: mean_def)

lemma length_linearTrend: "length (linearTrend fit data H) = H"
  by (simp add: linearTrend_def split: option.split)

lemma length_exponentialSmoothing: "length (exponentialSmoothing data alpha H) = H"
  by (simp add: exponentialSmoothing_def Let_def)

lemma mean_nonempty: "xs \<noteq> [] \<Longrightarrow> mean xs = Inr (sum_list xs / of_nat (length xs))"
  by (simp add: mean_def)

lemma movingAverage_all:
  "data \<noteq> [] \<Longrightarrow> movingAverage data (length data) = Inr (sum_list data / of_nat (length data))"
  by (simp add: movingAverage_def slice_neg_def mean_def)

lemma seasonalNaive_nonempty:
  assumes "data \<noteq> []"
  shows "\<exists>s. seasonalNaive data n H = Inr s \<and> length s = H"
  using assms by (simp add: seasonalNaive_def movingAverage_all)

lemma seasonalNaive_length: "seasonalNaive data n H = Inr s \<Longrightarrow> length s = H"
  by (auto simp: seasonalNaive_def split: if_splits sum.splits)

lemma collect_map_Inr:
  assumes "\<And>i. i \<in> set is \<Longrightarrow> g i = Inr (f i)"
  shows "collect (map g is) = Inr (map f is)"
  using assms by (induction "is") simp_all

lemma combinedForecast_eq:
  assumes "seasonalNaive data 7 H = Inr s"
  shows "combinedForecast fit data H =
     Inr (map (\<lambda>i. of_int (round ((linearTrend fit data H ! i
                 + exponentialSmoothing data (3 / 10) H ! i + s ! i) / 3))) [0..<H])"
proof -
  have len: "length s = H" using assms by (rule seasonalNaive_length)
  show ?thesis
    unfolding combinedForecast_def Let_def assms sum.case
    by (rule collect_map_Inr)
       (simp add: opt_or_index length_linearTrend length_exponentialSmoothing len mean_three)
qed

lemma combinedForecast_error:
  "seasonalNaive data 7 H = Inl e \<Longrightarrow> combinedForecast fit data H = Inl e"
  by (simp add: combinedForecast_def Let_def)

subsection \<open>The normalizer\<close>

lemma add_sale_lookup:
  "opt_or (map_of (add_sale r ds) d) 0
     = opt_or (map_of ds d) 0 + (if date r = d then units_sold r else 0)"
  by (auto simp: add_sale_def Let_def falsy_def opt_or_def update_conv'
           split: option.splits)

lemma add_sale_keys: "fst ` set (add_sale r ds) = insert (date r) (fst ` set ds)"
  by (auto simp: add_sale_def Let_def dom_update)

lemma fold_add_sale_lookup:
  "opt_or (map_of (fold add_sale rs ds) d) 0 = opt_or (map_of ds d) 0 + sold_on d rs"
proof (induction rs arbitrary: ds)
  case Nil
  show ?case by (simp add: sold_on_def)
next
  case (Cons r rs)
  show ?case by (simp add: Cons.IH add_sale_lookup sold_on_def)
qed

lemma fold_add_sale_keys:
  "fst ` set (fold add_sale rs ds) = fst ` set ds \<union> date ` set rs"
  by (induction rs arbitrary: ds) (auto simp: add_sale_keys)

lemma walk_days_upto:
  assumes "\<forall>d. c \<le> d \<and> d \<le> e \<longrightarrow> z d = 0"
  shows "walk_days z ds (c, 0) (e, 0) = map (\<lambda>d. opt_or (map_of ds d) 0) [c..e]"
  using assms
proof (induction "nat (e + 1 - c)" arbitrary: c)
  case 0
  then have "\<not> c \<le> e" by simp
  then show ?case
    by (subst walk_days.simps) (simp add: not_after_def)
next
  case (Suc n)
  then have le: "c \<le> e" and n: "n = nat (e + 1 - (c + 1))" by simp_all
  have next_day: "addDays z (c, 0) 1 = (c + 1, 0)" if "c + 1 \<le> e"
    using that Suc.prems by (simp add: addDays_def at_wall_clock_def)
  have "walk_days z ds (c, 0) (e, 0) = map (\<lambda>d. opt_or (map_of ds d) 0) [c..e]"
  proof (cases "c + 1 \<le> e")
    case True
    have "walk_days z ds (c, 0) (e, 0)
            = opt_or (map_of ds c) 0 # walk_days z ds (c + 1, 0) (e, 0)"
      using le
      by (subst walk_days.simps) (simp add: not_after_def format_day_def next_day [OF True])
    also have "\<dots> = opt_or (map_of ds c) 0 # map (\<lambda>d. opt_or (map_of ds d) 0) [c + 1..e]"
      using Suc.hyps(1) [OF n] Suc.prems by simp
    finally show ?thesis using le by (simp add: upto_rec1 [of c e])
  next
    case False
    with le have ce: "c = e" by simp
    have "\<not> not_after (addDays z (e, 0) 1) (e, 0)"
      by (simp add: not_after_def addDays_def at_wall_clock_def)
    then have "walk_days z ds (addDays z (e, 0) 1) (e, 0) = []"
      by (subst walk_days.simps) simp
    then show ?thesis
      unfolding ce by (subst walk_days.simps) (simp add: not_after_def format_day_def)
  qed
  then show ?case .
qed

lemma sort_first_Min:
  fixes ks :: "int list"
  assumes "ks \<noteq> []"
  shows "sort ks ! 0 = Min (set ks)"
proof -
  have ne: "sort ks \<noteq> []" using assms by (metis length_0_conv length_sort)
  then obtain x xs where eq: "sort ks = x # xs" by (cases "sort ks") auto
  have "sorted (sort ks)" by simp
  then have "sorted (x # xs)" by (simp only: eq)
  then have "\<forall>y \<in> set (x # xs). x \<le> y" by auto
  moreover have "set (sort ks) = set ks" by simp
  then have "set (x # xs) = set ks" by (simp only: eq)
  ultimately have "Min (set ks) = x"
    by (intro Min_eqI) auto
  then show ?thesis by (simp add: eq)
qed

lemma sort_last_Max:
  fixes ks :: "int list"
  assumes "ks \<noteq> []"
  shows "sort ks ! (length (sort ks) - 1) = Max (set ks)"
proof -
  have ne: "sort ks \<noteq> []" using assms by (metis length_0_conv length_sort)
  have srt: "sorted (sort ks)" by simp
  have "Max (set ks) = last (sort ks)"
  proof (intro Max_eqI)
    show "finite (set ks)" by simp
    show "last (sort ks) \<in> set ks" using last_in_set [OF ne] by simp
    fix y assume "y \<in> set ks"
    then have "y \<in> set (sort ks)" by simp
    then obtain i where i: "i < length (sort ks)" "sort ks ! i = y"
      by (metis in_set_conv_nth)
    then have "sort ks ! i \<le> sort ks ! (length (sort ks) - 1)"
      using srt ne by (intro sorted_nth_mono) auto
    then show "y \<le> last (sort ks)" using i ne by (simp add: last_conv_nth)
  qed
  then show ?thesis using ne by (simp add: last_conv_nth)
qed

lemma prepareSalesData_in_eq:
  assumes "rs \<noteq> []"
    and "\<forall>d. Min (date ` set rs) \<le> d \<and> d \<le> Max (date ` set rs) \<longrightarrow> z d = 0"
  shows "prepareSalesData_in z rs
           = map (\<lambda>d. sold_on d rs) [Min (date ` set rs)..Max (date ` set rs)]"
proof -
  let ?ds = "fold add_sale rs []"
  let ?lo = "Min (date ` set rs)" and ?hi = "Max (date ` set rs)"
  have keys: "set (map fst ?ds) = date ` set rs"
    using fold_add_sale_keys [of rs "[]"] by simp
  have ne: "map fst ?ds \<noteq> []"
    using keys assms(1) by (metis empty_is_image set_empty)
  have lk: "\<And>d. opt_or (map_of ?ds d) 0 = sold_on d rs"
    using fold_add_sale_lookup [of rs "[]"] by (simp add: opt_or_def)
  have ne': "(length (sort (map fst ?ds)) = 0) = False"
    using ne by simp
  have first: "sort (map fst ?ds) ! 0 = ?lo"
    and last: "sort (map fst ?ds) ! (length (sort (map fst ?ds)) - 1) = ?hi"
    using sort_first_Min [OF ne] sort_last_Max [OF ne] keys by simp_all
  have "?lo \<in> date ` set rs" and "?hi \<in> date ` set rs"
    using assms(1) by simp_all
  then have lo_le_hi: "?lo \<le> ?hi" by simp
  then have z: "z ?lo = 0" "z ?hi = 0" using assms(2) by simp_all
  have "prepareSalesData_in z rs = walk_days z ?ds (parseISO z ?lo) (parseISO z ?hi)"
    unfolding prepareSalesData_in_def Let_def first last by (simp only: ne' if_False)
  also have "\<dots> = walk_days z ?ds (?lo, 0) (?hi, 0)"
    by (simp add: parseISO_def at_wall_clock_def z)
  finally show ?thesis using assms(2) by (simp add: walk_days_upto lk)
qed

lemma prepareSalesData_eq:
  assumes "rs \<noteq> []"
  shows "prepareSalesData rs
           = map (\<lambda>d. sold_on d rs) [Min (date ` set rs)..Max (date ` set rs)]"
  unfolding prepareSalesData_def using assms by (rule prepareSalesData_in_eq) simp

lemma Min_le_Max_dates:
  assumes "rs \<noteq> []"
  shows "Min (date ` set rs) \<le> Max (date ` set rs)"
proof -
  have "Min (date ` set rs) \<in> date ` set rs"
    using assms by (intro Min_in) auto
  then show ?thesis by (intro Max_ge) auto
qed

lemma sold_on_absent: "d \<notin> date ` set rs \<Longrightarrow> sold_on d rs = 0"
proof -
  assume "d \<notin> date ` set rs"
  then have "filter (\<lambda>r. date r = d) rs = []" by (auto simp: filter_empty_conv)
  then show ?thesis by (simp add: sold_on_def)
qed

lemma prepareSalesData_nonempty: "rs \<noteq> [] \<Longrightarrow> prepareSalesData rs \<noteq> []"
proof -
  assume ne: "rs \<noteq> []"
  have "Min (date ` set rs) \<le> Max (date ` set rs)"
    using ne by (rule Min_le_Max_dates)
  then show ?thesis by (simp add: prepareSalesData_eq [OF ne])
qed


subsection \<open>The handler of one SKU\<close>

lemma clampDays_range: "1 \<le> clampDays d \<and> clampDays d \<le> 90"
  by (simp add: clampDays_def) linarith

lemma dispatch_nonempty:
  assumes "ts \<noteq> []"
  shows "\<exists>fc. fst (dispatch fit m ts H) = Inr fc \<and> length fc = H"
proof -
  obtain s where s: "seasonalNaive ts 7 H = Inr s" "length s = H"
    using seasonalNaive_nonempty [OF assms] by blast
  show ?thesis
    by (simp add: dispatch_def s combinedForecast_eq [OF s(1)]
          length_linearTrend length_exponentialSmoothing)
qed

lemma dispatch_method:
  "snd (dispatch fit m ts H) =
     (if m = ''linear'' \<or> m = ''exponential'' \<or> m = ''seasonal'' then m else ''combined'')"
  by (simp add: dispatch_def)

lemma length_forecastData [simp]: "length (forecastData now sku fc) = length fc"
  by (simp add: forecastData_def)

lemma peak_nonempty: "fd \<noteq> [] \<Longrightarrow> \<exists>pk. peak fd = Inr pk"
  by (cases fd) (simp_all add: peak_def)

lemma generate_accepted:
  assumes sku: "req_sku req \<noteq> []" and sales: "salesData env \<noteq> []"
  shows "\<exists>fc pk.
           dispatch fit (body_method req) (prepareSalesData (salesData env))
               (clampDays (body_days req)) = (Inr fc, snd (dispatch fit (body_method req) (prepareSalesData (salesData env))
               (clampDays (body_days req)))) \<and>
           length fc = clampDays (body_days req) \<and>
           generate fit env req = Success
             \<lparr>res_sku = req_sku req,
              res_method = snd (dispatch fit (body_method req)
                                  (prepareSalesData (salesData env))
                                  (clampDays (body_days req))),
              requestedMethod = body_method req,
              period_days = clampDays (body_days req),
              period_startDate =
                map_option point_date
                  (js_index (forecastData (today env) (req_sku req) fc) 0),
              period_endDate =
                map_option point_date
                  (js_index (forecastData (today env) (req_sku req) fc) (length fc - 1)),
              forecast = forecastData (today env) (req_sku req) fc,
              totalPredictedDemand = reduce_sum fc,
              averageDailyDemand =
                js_div (of_int (round (js_mul (js_div (reduce_sum fc)
                                   (of_nat (clampDays (body_days req)))) 100))) 100,
              peakDay = pk,
              reorder =
                map_option
                  (\<lambda>inv. reorderSuggestion (reduce_sum fc)
                           (js_div (reduce_sum fc) (of_nat (clampDays (body_days req))))
                           (quantity inv) (reorder_level inv))
                  (currentInventory env)\<rparr>"
proof -
  let ?ts = "prepareSalesData (salesData env)"
  let ?H = "clampDays (body_days req)"
  let ?d = "dispatch fit (body_method req) ?ts ?H"
  have ts: "?ts \<noteq> []" using sales by (rule prepareSalesData_nonempty)
  obtain fc where fc: "fst ?d = Inr fc" "length fc = ?H"
    using dispatch_nonempty [OF ts] by blast
  then have d: "?d = (Inr fc, snd ?d)" by (metis prod.collapse)
  have "fc \<noteq> []" using fc(2) clampDays_range [of "body_days req"] by auto
  then have "forecastData (today env) (req_sku req) fc \<noteq> []"
    by (metis length_forecastData length_0_conv)
  then obtain pk where pk: "peak (forecastData (today env) (req_sku req) fc) = Inr pk"
    using peak_nonempty by blast
  have "generate fit env req = Success
             \<lparr>res_sku = req_sku req,
              res_method = snd ?d,
              requestedMethod = body_method req,
              period_days = ?H,
              period_startDate =
                map_option point_date
                  (js_index (forecastData (today env) (req_sku req) fc) 0),
              period_endDate =
                map_option point_date
                  (js_index (forecastData (today env) (req_sku req) fc) (length fc - 1)),
              forecast = forecastData (today env) (req_sku req) fc,
              totalPredictedDemand = reduce_sum fc,
              averageDailyDemand =
                js_div (of_int (round (js_mul (js_div (reduce_sum fc) (of_nat ?H)) 100))) 100,
              peakDay = pk,
              reorder =
                map_option
                  (\<lambda>inv. reorderSuggestion (reduce_sum fc)
                           (js_div (reduce_sum fc) (of_nat ?H))
                           (quantity inv) (reorder_level inv))
                  (currentInventory env)\<rparr>"
    unfolding generate_def Let_def body_days_def [symmetric] body_method_def [symmetric]
    using sku sales by (subst d) (simp add: pk)
  with d fc(2) show ?thesis by blast
qed

subsection \<open>The batch handler and its sort\<close>

lemma insert_sorted_byPriority:
  "insert_sorted byPriority x ys
     = insort_key (\<lambda>f. - priorityOrder (entry_priority f)) x ys"
  by (induction ys) (simp_all add: byPriority_def)

lemma js_sort_byPriority:
  "js_sort byPriority xs = sort_key (\<lambda>f. - priorityOrder (entry_priority f)) xs"
  by (induction xs) (simp_all add: js_sort_def insert_sorted_byPriority)

lemma priorityOrder_inj: "priorityOrder p = priorityOrder q \<longleftrightarrow> p = q"
  by (cases p; cases q) simp_all

lemma js_sort_stable:
  "filter (\<lambda>f. entry_priority f = p) (js_sort byPriority xs)
     = filter (\<lambda>f. entry_priority f = p) xs"
  using sort_key_stable [of "\<lambda>f. - priorityOrder (entry_priority f)" "- priorityOrder p" xs]
  by (simp add: js_sort_byPriority priorityOrder_inj)

lemma sorted_by_priority_blocks:
  assumes "sorted (map (\<lambda>f. - priorityOrder (entry_priority f)) xs)"
  shows "xs = filter (\<lambda>f. entry_priority f = High) xs
            @ filter (\<lambda>f. entry_priority f = Medium) xs
            @ filter (\<lambda>f. entry_priority f = Low) xs"
  using assms
proof (induction xs)
  case Nil
  show ?case by simp
next
  case (Cons x xs)
  then have tl: "xs = filter (\<lambda>f. entry_priority f = High) xs
            @ filter (\<lambda>f. entry_priority f = Medium) xs
            @ filter (\<lambda>f. entry_priority f = Low) xs"
    and le: "\<forall>y \<in> set xs. priorityOrder (entry_priority y) \<le> priorityOrder (entry_priority x)"
    by auto
  show ?case
  proof (cases "entry_priority x")
    case High
    then show ?thesis using tl by simp
  next
    case Medium
    then have "\<forall>y \<in> set xs. entry_priority y \<noteq> High" using le by auto
    then have "filter (\<lambda>f. entry_priority f = High) xs = []"
      by (simp add: filter_empty_conv)
    then show ?thesis using tl Medium by simp
  next
    case Low
    then have "\<forall>y \<in> set xs. entry_priority y \<noteq> High \<and> entry_priority y \<noteq> Medium"
      using le by auto
    then have "filter (\<lambda>f. entry_priority f = High) xs = []"
      and "filter (\<lambda>f. entry_priority f = Medium) xs = []"
      by (simp_all add: filter_empty_conv)
    then show ?thesis using tl Low by simp
  qed
qed

lemma js_sort_blocks:
  "js_sort byPriority xs
     = filter (\<lambda>f. entry_priority f = High) xs
       @ filter (\<lambda>f. entry_priority f = Medium) xs
       @ filter (\<lambda>f. entry_priority f = Low) xs"
proof -
  have "sorted (map (\<lambda>f. - priorityOrder (entry_priority f)) (js_sort byPriority xs))"
    by (simp add: js_sort_byPriority)
  from sorted_by_priority_blocks [OF this] show ?thesis
    by (simp only: js_sort_stable)
qed

lemma fold_batch_round:
  "fst (fold (batch_round fit salesOf days) inventory (fs, es))
     = fs @ in_inventory_order fit salesOf days inventory"
  by (induction inventory arbitrary: fs es)
     (simp_all add: in_inventory_order_def batch_round_def split: sum.split)

lemma forecast_item_entry:
  assumes "forecast_item fit salesOf days item = Inr f"
  shows "entry_sku f = item_sku item \<and>
         entry_currentStock f = quantity item \<and>
         entry_reorderLevel f = reorder_level item \<and>
         entry_priority f =
           (if entry_currentStock f \<le> entry_reorderLevel f then High
            else if entry_predictedDemand f > entry_currentStock f then Medium else Low)"
proof (cases "combinedForecast fit (prepareSalesData (salesOf (item_sku item))) days")
  case (Inl e)
  with assms show ?thesis
    by (simp add: forecast_item_def Let_def split: if_splits)
next
  case (Inr fc)
  have ne: "length (salesOf (item_sku item)) \<noteq> 0"
    using assms by (auto simp: forecast_item_def Let_def)
  with Inr assms have "f = \<lparr>entry_sku = item_sku item,
                           entry_name = item_name item,
                           entry_currentStock = quantity item,
                           entry_reorderLevel = reorder_level item,
                           entry_predictedDemand = reduce_sum fc,
                           reorderNeeded = reduce_sum fc > quantity item,
                           entry_priority =
                             (if quantity item \<le> reorder_level item then High
                              else if reduce_sum fc > quantity item
                                   then Medium else Low)\<rparr>"
    by (simp add: forecast_item_def Let_def)
  then show ?thesis by simp
qed

lemma in_inventory_order_priority:
  assumes "f \<in> set (in_inventory_order fit salesOf days inventory)"
  shows "entry_priority f =
           (if entry_currentStock f \<le> entry_reorderLevel f then High
            else if entry_predictedDemand f > entry_currentStock f then Medium else Low)"
proof -
  from assms obtain item where "forecast_item fit salesOf days item = Inr f"
    by (auto simp: in_inventory_order_def split: sum.splits)
  then show ?thesis using forecast_item_entry by blast
qed


subsection \<open>Arithmetic on rational numerals\<close>

lemma floor_rat_numeral:
  "\<lfloor>(numeral a :: rat) / numeral b\<rfloor> = numeral a div numeral b"
  using floor_divide_of_int_eq [of "numeral a" "numeral b", where ?'a = rat] by simp

text \<open>
  The rounding at values whose doubles are well known: \<open>0.1\<close> is
  \<open>3602879701896397 / 2^55\<close>, \<open>7/3\<close> is \<open>5254199565265579 / 2^51\<close>, and a whole number
  below \<open>2^53\<close> is itself.
\<close>

lemma to_double_examples:
  "to_double (1 / 10) = 3602879701896397 / 2 ^ 55"
  "to_double (7 / 3) = 5254199565265579 / 2 ^ 51"
  "to_double 70 = 70"
  "to_double (- (1 / 3)) = - (6004799503160661 / 2 ^ 54)"
  "to_double (2 ^ 53 + 1) = 2 ^ 53"
  by code_simp+

subsection \<open>Non-negative forecasts\<close>

lemma linearTrend_nonneg:
  assumes "\<forall>x \<in> set data. 0 \<le> x"
  shows "\<forall>v \<in> set (linearTrend fit data H). 0 \<le> v"
proof (cases "length data < 2")
  case True
  then show ?thesis using assms by (cases data) (auto simp: linearTrend_def)
next
  case False
  then have "data \<noteq> []" by auto
  then have "data ! (length data - 1) \<in> set data" by simp
  with assms have "0 \<le> data ! (length data - 1)" by blast
  with False show ?thesis
    by (auto simp: linearTrend_def Let_def split: option.split)
qed

lemma exponentialSmoothing_nonneg:
  assumes "\<forall>x \<in> set data. 0 \<le> x"
  shows "\<forall>v \<in> set (exponentialSmoothing data alpha H). 0 \<le> v"
  using assms by (cases data) (auto simp: exponentialSmoothing_def Let_def)

lemma seasonalNaive_nonneg:
  assumes "seasonalNaive data n H = Inr s"
  shows "\<forall>v \<in> set s. 0 \<le> v"
  using assms by (auto simp: seasonalNaive_def Let_def split: if_splits sum.splits)

lemma predictors_on_nonempty_series:
  assumes "data \<noteq> []" and "\<forall>x \<in> set data. 0 \<le> x"
  shows "length (linearTrend fit data H) = H \<and>
         (\<forall>v \<in> set (linearTrend fit data H). 0 \<le> v) \<and>
         length (exponentialSmoothing data alpha H) = H \<and>
         (\<forall>v \<in> set (exponentialSmoothing data alpha H). 0 \<le> v) \<and>
         (\<exists>s. seasonalNaive data n H = Inr s \<and> length s = H \<and> (\<forall>v \<in> set s. 0 \<le> v))"
proof -
  obtain s where s: "seasonalNaive data n H = Inr s" "length s = H"
    using seasonalNaive_nonempty [OF assms(1)] by blast
  then have "\<forall>v \<in> set s. 0 \<le> v" using seasonalNaive_nonneg by blast
  with s show ?thesis
    using linearTrend_nonneg [OF assms(2)] exponentialSmoothing_nonneg [OF assms(2)]
    by (simp add: length_linearTrend length_exponentialSmoothing)
qed

subsection \<open>The answer to an accepted request\<close>

lemma generate_no_sku: "req_sku req = [] \<Longrightarrow> generate fit env req = Failure 400 ''Bad Request''"
  by (simp add: generate_def Let_def)


lemma forecastData_dates:
  "map point_date (forecastData now sku fc) = map (\<lambda>k. now + 1 + int k) [0..<length fc]"
  by (simp add: forecastData_def add.commute add.left_commute)

lemma forecastData_values: "map predicted_demand (forecastData now sku fc) = fc"
  by (simp add: forecastData_def comp_def map_nth)

lemma generate_forecast:
  assumes "req_sku req \<noteq> []" and "salesData env \<noteq> []"
  shows "\<exists>fc. fst (dispatch fit (body_method req) (prepareSalesData (salesData env))
                    (clampDays (body_days req))) = Inr fc \<and>
              length fc = clampDays (body_days req) \<and>
              is_Success (generate fit env req) \<and>
              res_method (result (generate fit env req))
                = snd (dispatch fit (body_method req) (prepareSalesData (salesData env))
                         (clampDays (body_days req))) \<and>
              period_days (result (generate fit env req)) = clampDays (body_days req) \<and>
              forecast (result (generate fit env req))
                = forecastData (today env) (req_sku req) fc"
proof -
  from generate_accepted [OF assms, of fit] obtain fc r
    where d: "dispatch fit (body_method req) (prepareSalesData (salesData env))
             (clampDays (body_days req))
           = (Inr fc, snd (dispatch fit (body_method req) (prepareSalesData (salesData env))
                             (clampDays (body_days req))))"
      and len: "length fc = clampDays (body_days req)"
      and g: "generate fit env req = Success r"
      and r: "res_method r = snd (dispatch fit (body_method req)
                                 (prepareSalesData (salesData env))
                                 (clampDays (body_days req)))"
        "period_days r = clampDays (body_days req)"
        "forecast r = forecastData (today env) (req_sku req) fc"
    by force
  from d have "fst (dispatch fit (body_method req) (prepareSalesData (salesData env))
                    (clampDays (body_days req))) = Inr fc"
    by (metis fst_conv)
  with len r show ?thesis by (simp add: g)
qed


lemma generate_total:
  assumes "req_sku req \<noteq> []" and "salesData env \<noteq> []"
  shows "\<exists>fc. fst (dispatch fit (body_method req) (prepareSalesData (salesData env))
                    (clampDays (body_days req))) = Inr fc \<and>
              totalPredictedDemand (result (generate fit env req)) = reduce_sum fc"
proof -
  from generate_accepted [OF assms, of fit] obtain fc r
    where d: "dispatch fit (body_method req) (prepareSalesData (salesData env))
             (clampDays (body_days req))
           = (Inr fc, snd (dispatch fit (body_method req) (prepareSalesData (salesData env))
                             (clampDays (body_days req))))"
      and g: "generate fit env req = Success r"
      and r: "totalPredictedDemand r = reduce_sum fc"
    by force
  from d have "fst (dispatch fit (body_method req) (prepareSalesData (salesData env))
                    (clampDays (body_days req))) = Inr fc"
    by (metis fst_conv)
  with r show ?thesis by (simp add: g)
qed

lemma generate_advisory:
  assumes "req_sku req \<noteq> []" and "salesData env \<noteq> []"
  shows "reorder (result (generate fit env req))
           = map_option
               (\<lambda>inv. reorderSuggestion
                         (totalPredictedDemand (result (generate fit env req)))
                         (js_div (totalPredictedDemand (result (generate fit env req)))
                            (of_nat (period_days (result (generate fit env req)))))
                         (quantity inv) (reorder_level inv))
               (currentInventory env)"
proof -
  from generate_accepted [OF assms, of fit] obtain fc r
    where g: "generate fit env req = Success r"
      and r: "totalPredictedDemand r = reduce_sum fc"
        "period_days r = clampDays (body_days req)"
        "reorder r = map_option
                  (\<lambda>inv. reorderSuggestion (reduce_sum fc)
                           (js_div (reduce_sum fc) (of_nat (clampDays (body_days req))))
                           (quantity inv) (reorder_level inv))
                  (currentInventory env)"
    by force
  then show ?thesis by simp
qed

section \<open>The claims\<close>

subsection \<open>C1: the day counts of the reorder advisory\<close>

text \<open>
  C1, as the specification states it, divides by \<open>max(averageDailyDemand, 1)\<close> and
  gives \<open>daysOfStock = 100\<close> for stock 100, predicted demand 20 and horizon 30. The
  code divides by \<^verbatim>\<open>avgDailyDemand || 1\<close>: at this input the divisor is the double
  \<open>20/30\<close> and the advisory has \<open>daysOfStock = 150\<close>.
\<close>

theorem reorder_days_counterexample:
  "needed (reorderSuggestion 20 (js_div 20 30) 100 10) = False \<and>
   daysOfStock (reorderSuggestion 20 (js_div 20 30) 100 10) = Some 150 \<and>
   daysOfStock (reorderSuggestion 20 (js_div 20 30) 100 10)
     \<noteq> Some \<lfloor>js_div 100 (max (js_div 20 30) 1)\<rfloor>"
proof -
  have "js_div 20 30 \<noteq> 0" and "\<lfloor>js_div 100 (js_div 20 30)\<rfloor> = 150"
    and "\<lfloor>js_div 100 (max (js_div 20 30) 1)\<rfloor> = 100"
    by code_simp+
  then show ?thesis by (simp add: reorderSuggestion_def num_or_def)
qed

text \<open>
  C1, amended: in every advisory the day count is the floor of the quotient, in
  double-precision arithmetic, of the current stock by the average daily demand,
  where \<open>1\<close> stands in for the average only when the average is \<open>0\<close>; the count is
  \<open>daysUntilStockout\<close> when a reorder is needed (predicted demand above the stock) and
  \<open>daysOfStock\<close> otherwise; stock 100, predicted demand 20 and horizon 30 give no
  reorder and 150 days of stock.
\<close>

theorem reorder_days_divisor:
  "(let r = reorderSuggestion demand avg stock level;
        divisor = (if avg = 0 then 1 else avg)
    in (demand > stock \<longrightarrow>
          needed r \<and> daysUntilStockout r = Some \<lfloor>js_div stock divisor\<rfloor>) \<and>
       (\<not> demand > stock \<longrightarrow>
          \<not> needed r \<and> daysOfStock r = Some \<lfloor>js_div stock divisor\<rfloor>)) \<and>
   \<not> needed (reorderSuggestion 20 (js_div 20 30) 100 threshold) \<and>
   daysOfStock (reorderSuggestion 20 (js_div 20 30) 100 threshold) = Some 150"
proof -
  have "js_div 20 30 \<noteq> 0" and "\<lfloor>js_div 100 (js_div 20 30)\<rfloor> = 150"
    by code_simp+
  then show ?thesis by (simp add: reorderSuggestion_def num_or_def Let_def)
qed

text \<open>
  Where the rounding of the machine decides: predicted demand 7 over 3 days and
  stock 35 count 14 days, since the quotient of 35 by the double \<open>7/3\<close> is just below
  15; demand 23 over 30 days and stock 23 count 29 days; demand 5 over 7 days and
  stock 15 count 21 days. Stock 5 against a demand of 20 over 30 days runs out in 7
  days, and stock 4 with no demand at all counts 4 days.
\<close>

theorem reorder_days_divisor_witness:
  "\<not> (7::rat) > 35 \<and>
   daysOfStock (reorderSuggestion 7 (js_div 7 3) 35 10) = Some 14 \<and>
   \<not> (23::rat) > 23 \<and>
   daysOfStock (reorderSuggestion 23 (js_div 23 30) 23 10) = Some 29 \<and>
   \<not> (5::rat) > 15 \<and>
   daysOfStock (reorderSuggestion 5 (js_div 5 7) 15 10) = Some 21 \<and>
   (20::rat) > 5 \<and>
   needed (reorderSuggestion 20 (js_div 20 30) 5 10) \<and>
   daysUntilStockout (reorderSuggestion 20 (js_div 20 30) 5 10) = Some 7 \<and>
   \<not> (0::rat) > 4 \<and>
   \<not> needed (reorderSuggestion 0 0 4 10) \<and>
   daysOfStock (reorderSuggestion 0 0 4 10) = Some 4"
proof -
  have nz: "js_div 7 3 \<noteq> 0" "js_div 23 30 \<noteq> 0" "js_div 5 7 \<noteq> 0" "js_div 20 30 \<noteq> 0"
    by code_simp+
  have fl: "\<lfloor>js_div 35 (js_div 7 3)\<rfloor> = 14" "\<lfloor>js_div 23 (js_div 23 30)\<rfloor> = 29"
    "\<lfloor>js_div 15 (js_div 5 7)\<rfloor> = 21" "\<lfloor>js_div 5 (js_div 20 30)\<rfloor> = 7"
    "\<lfloor>js_div 4 1\<rfloor> = 4"
    by code_simp+
  from reorder_days_divisor [of 7 "js_div 7 3" 35 10]
    reorder_days_divisor [of 23 "js_div 23 30" 23 10]
    reorder_days_divisor [of 5 "js_div 5 7" 15 10]
    reorder_days_divisor [of 20 "js_div 20 30" 5 10]
    reorder_days_divisor [of 0 0 4 10]
  show ?thesis by (simp add: Let_def nz fl)
qed

subsection \<open>C6: the advisory when a reorder is needed\<close>



text \<open>
  The whole handler on the same ground: sales of 3, 2 and 2 units on three days, the
  seasonal method over 6 days, stock 10 and threshold 5. The six values \<open>7/3\<close> sum to
  \<open>14 + 2^-49\<close>, the double after 14, and the suggestion is 10 units, not 9.
\<close>

lemma generate_advisory_example:
  "totalPredictedDemand (result (generate leastSquares
        \<lparr>salesData = [\<lparr>date = 1, units_sold = 3\<rparr>, \<lparr>date = 2, units_sold = 2\<rparr>,
                       \<lparr>date = 3, units_sold = 2\<rparr>],
         currentInventory =
           Some \<lparr>item_sku = ''A'', item_name = ''a'', quantity = 10, reorder_level = 5\<rparr>,
         today = 20\<rparr>
        \<lparr>req_sku = ''A'', req_days = Some 6, req_method = Some ''seasonal''\<rparr>))
     = 14 + 1 / 2 ^ 49 \<and>
   map_option suggestedQuantity
     (reorder (result (generate leastSquares
        \<lparr>salesData = [\<lparr>date = 1, units_sold = 3\<rparr>, \<lparr>date = 2, units_sold = 2\<rparr>,
                       \<lparr>date = 3, units_sold = 2\<rparr>],
         currentInventory =
           Some \<lparr>item_sku = ''A'', item_name = ''a'', quantity = 10, reorder_level = 5\<rparr>,
         today = 20\<rparr>
        \<lparr>req_sku = ''A'', req_days = Some 6, req_method = Some ''seasonal''\<rparr>)))
     = Some (Some 10)"
proof -
  let ?env = "\<lparr>salesData = [\<lparr>date = 1, units_sold = 3\<rparr>, \<lparr>date = 2, units_sold = 2\<rparr>,
                       \<lparr>date = 3, units_sold = 2\<rparr>],
         currentInventory =
           Some \<lparr>item_sku = ''A'', item_name = ''a'', quantity = 10, reorder_level = 5\<rparr>,
         today = 20\<rparr>"
  let ?req = "\<lparr>req_sku = ''A'', req_days = Some 6, req_method = Some ''seasonal''\<rparr>"
  let ?t = "7881299347898369 / 562949953421312 :: rat"
  have p: "req_sku ?req \<noteq> []" "salesData ?env \<noteq> []" by simp_all
  have ts: "prepareSalesData (salesData ?env) = [3, 2, 2]" by code_simp
  have H: "clampDays (body_days ?req) = 6" by (simp add: clampDays_def body_days_def)
  have m: "body_method ?req = ''seasonal''" by (simp add: body_method_def)
  have fc: "seasonalNaive [3, 2, 2] 7 6 = Inr (replicate 6 (7 / 3))" by code_simp
  have s1: "js_add 0 (7 / 3) = 5254199565265579 / 2251799813685248" by code_simp
  have s2: "js_add (5254199565265579 / 2251799813685248) (7 / 3)
              = 5254199565265579 / 1125899906842624" by code_simp
  have s3: "js_add (5254199565265579 / 1125899906842624) (7 / 3) = 7" by code_simp
  have s4: "js_add 7 (7 / 3) = 5254199565265579 / 562949953421312" by code_simp
  have s5: "js_add (5254199565265579 / 562949953421312) (7 / 3)
              = 3283874728290987 / 281474976710656" by code_simp
  have s6: "js_add (3283874728290987 / 281474976710656) (7 / 3) = ?t" by code_simp
  have sum: "reduce_sum (replicate 6 (7 / 3)) = ?t"
    by (simp add: reduce_sum_def numeral_eq_Suc s1 s2 s3 s4 s5 s6)
  have val: "?t = 14 + 1 / 2 ^ 49" by simp
  have gt: "?t > 10" by simp
  have q: "\<lceil>js_add (js_sub ?t 10) 5\<rceil> = 10" by code_simp
  from generate_total [OF p, of leastSquares] obtain fc'
    where d: "fst (dispatch leastSquares (body_method ?req)
                     (prepareSalesData (salesData ?env)) (clampDays (body_days ?req)))
              = Inr fc'"
      and t: "totalPredictedDemand (result (generate leastSquares ?env ?req)) = reduce_sum fc'"
    by blast
  from d have "fc' = replicate 6 (7 / 3)"
    unfolding ts H m by (simp add: dispatch_def fc)
  with t have total: "totalPredictedDemand (result (generate leastSquares ?env ?req)) = ?t"
    by (simp only: sum)
  have "period_days (result (generate leastSquares ?env ?req)) = 6"
    using generate_forecast [OF p, of leastSquares] H by auto
  with generate_advisory [OF p, of leastSquares] total
  have "reorder (result (generate leastSquares ?env ?req))
          = Some (reorderSuggestion ?t (js_div ?t 6) 10 5)"
    by simp
  then have "map_option suggestedQuantity (reorder (result (generate leastSquares ?env ?req)))
               = Some (Some 10)"
    using gt q by (simp add: reorderSuggestion_def)
  with total show ?thesis by (simp only: val)
qed

subsection \<open>C7: the Moving-Average helper\<close>

text \<open>
  C7, as the specification states it, makes the helper the mean of the last
  \<open>min(periods, len)\<close> values. On the series \<open>[1, 3]\<close> with \<open>periods = 7\<close> that mean is
  \<open>2\<close>, and the helper returns \<open>3\<close>, the last value.
\<close>

theorem movingAverage_counterexample:
  "movingAverage [1, 3] 7 = Inr 3 \<and> movingAverage_spec [1, 3] 7 = 2 \<and>
   movingAverage [1, 3] 7 \<noteq> Inr (movingAverage_spec [1, 3] 7)"
  by (simp add: movingAverage_def movingAverage_spec_def)

text \<open>
  C7, amended: for every series and every \<open>periods \<ge> 1\<close>, the helper returns the mean
  of the last \<open>periods\<close> values when the series has at least \<open>periods\<close> values, and
  otherwise the last value of the series, \<open>0\<close> when the series is empty.
\<close>

theorem movingAverage_cases:
  assumes "1 \<le> periods"
  shows "movingAverage data periods =
           Inr (if length data < periods
                then (if data = [] then 0 else last data)
                else sum_list (drop (length data - periods) data) / of_nat periods)"
proof (cases "length data < periods")
  case True
  then show ?thesis by (simp add: movingAverage_def last_conv_nth)
next
  case False
  with assms have "slice_neg periods data = drop (length data - periods) data"
    and "length (drop (length data - periods) data) = periods"
    by (simp_all add: slice_neg_def)
  with assms False show ?thesis by (simp add: movingAverage_def mean_def)
qed

text \<open>A series shorter than the window, one longer than it, and the empty series.\<close>

theorem movingAverage_cases_witness:
  "(1::nat) \<le> 7 \<and> movingAverage [1, 3] 7 = Inr 3 \<and>
   (1::nat) \<le> 2 \<and> movingAverage [4, 1, 3] 2 = Inr 2 \<and>
   movingAverage [] 7 = Inr 0"
  using movingAverage_cases [of 7 "[1, 3]"] movingAverage_cases [of 2 "[4, 1, 3]"]
    movingAverage_cases [of 7 "[]"]
  by simp

subsection \<open>C3: the predictors on the empty series\<close>

text \<open>
  C3: on the empty series with horizon 5, Linear Trend and Exponential Smoothing
  return five zeros, and Seasonal Naive does not return: its fallback calls
  \<^verbatim>\<open>movingAverage(data, data.length)\<close> with \<open>periods = 0\<close>, the guard
  \<^verbatim>\<open>data.length < periods\<close> is false, and \<^verbatim>\<open>mean\<close> throws on the empty slice.
\<close>

theorem seasonalNaive_empty_series:
  "linearTrend fit [] 5 = [0, 0, 0, 0, 0] \<and>
   exponentialSmoothing [] (3 / 10) 5 = [0, 0, 0, 0, 0] \<and>
   movingAverage [] (length ([] :: rat list)) = Inl MeanRequiresData \<and>
   seasonalNaive [] 7 5 = Inl MeanRequiresData \<and>
   combinedForecast fit [] 5 = Inl MeanRequiresData"
  by (simp add: linearTrend_def exponentialSmoothing_def seasonalNaive_def
        combinedForecast_def movingAverage_def slice_neg_def mean_def numeral_eq_Suc)

subsection \<open>C4: the combined forecast\<close>

text \<open>
  C4: for every series and horizon, the combined forecast at each day index is the
  mean of the Linear Trend, Exponential Smoothing and Seasonal Naive values at that
  index, rounded to the nearest integer. The combined forecast exists for every
  non-empty series, and whenever it exists it has one value per day of the horizon,
  each the rounded mean of the three.
\<close>

theorem combinedForecast_rounded_mean:
  "(data \<noteq> [] \<longrightarrow> (\<exists>c. combinedForecast fit data H = Inr c)) \<and>
   (\<forall>c. combinedForecast fit data H = Inr c \<longrightarrow>
      (\<exists>s. seasonalNaive data 7 H = Inr s \<and> length c = H \<and>
         (\<forall>i<H. c ! i =
            of_int (round ((linearTrend fit data H ! i
                             + exponentialSmoothing data (3 / 10) H ! i
                             + s ! i) / 3)))))"
proof (intro conjI impI allI)
  assume "data \<noteq> []"
  then obtain s where "seasonalNaive data 7 H = Inr s"
    using seasonalNaive_nonempty by blast
  then show "\<exists>c. combinedForecast fit data H = Inr c"
    by (simp add: combinedForecast_eq)
next
  fix c
  assume c: "combinedForecast fit data H = Inr c"
  show "\<exists>s. seasonalNaive data 7 H = Inr s \<and> length c = H \<and>
         (\<forall>i<H. c ! i =
            of_int (round ((linearTrend fit data H ! i
                             + exponentialSmoothing data (3 / 10) H ! i
                             + s ! i) / 3)))"
  proof (cases "seasonalNaive data 7 H")
    case (Inl e)
    then show ?thesis using c by (simp add: combinedForecast_error)
  next
    case (Inr s)
    from combinedForecast_eq [OF this, of fit] c
    have "c = map (\<lambda>i. of_int (round ((linearTrend fit data H ! i
                 + exponentialSmoothing data (3 / 10) H ! i + s ! i) / 3))) [0..<H]"
      by simp
    then show ?thesis using Inr by simp
  qed
qed

text \<open>The series \<open>[10, 12, 14, 16, 18]\<close> over three days.\<close>

theorem combinedForecast_rounded_mean_witness:
  "[10, 12, 14, 16, 18] \<noteq> ([] :: rat list) \<and>
   combinedForecast leastSquares [10, 12, 14, 16, 18] 3 = Inr [16, 17, 17] \<and>
   linearTrend leastSquares [10, 12, 14, 16, 18] 3 = [20, 22, 24] \<and>
   exponentialSmoothing [10, 12, 14, 16, 18] (3 / 10) 3 = [14, 14, 14] \<and>
   seasonalNaive [10, 12, 14, 16, 18] 7 3 = Inr [14, 14, 14]"
proof -
  let ?d = "[10, 12, 14, 16, 18] :: rat list"
  have l: "linearTrend leastSquares ?d 3 = [20, 22, 24]" by code_simp
  have e: "exponentialSmoothing ?d (3 / 10) 3 = [14, 14, 14]" by code_simp
  have s: "seasonalNaive ?d 7 3 = Inr [14, 14, 14]" by code_simp
  from combinedForecast_rounded_mean [of ?d leastSquares 3]
  obtain c where c: "combinedForecast leastSquares ?d 3 = Inr c" "length c = 3"
    "\<forall>i<3. c ! i = of_int (round ((linearTrend leastSquares ?d 3 ! i
                             + exponentialSmoothing ?d (3 / 10) 3 ! i
                             + [14, 14, 14] ! i) / 3))"
    unfolding s by auto
  have "c ! 0 = 16" "c ! 1 = 17" "c ! 2 = 17"
    using c(3) unfolding l e by (simp_all add: round_def floor_rat_numeral)
  with c(2) have "c = [16, 17, 17]"
    by (cases c; cases "tl c"; cases "tl (tl c)") auto
  with c(1) l e s show ?thesis by simp
qed

subsection \<open>C5: the normalized series\<close>

text \<open>
  C5: for observations that span \<open>d_min\<close> to \<open>d_max\<close> the series should have
  \<open>(d_max - d_min) + 1\<close> entries, each the sum of its day. In a process whose time zone
  starts daylight saving time at midnight the walk loses the last day. In
  America/Havana the day 2024-03-10 (day 19792) begins at 01:00: with one unit sold
  on 2024-03-09 and two on 2024-03-11, \<^verbatim>\<open>addDays\<close> lands on 01:00 of the 10th, keeps
  01:00 on the 11th, and that is after \<^verbatim>\<open>endDate\<close>, the midnight of the 11th. The series
  is \<open>[1, 0]\<close>; where every midnight exists it is \<open>[1, 0, 2]\<close>.
\<close>

theorem prepareSalesData_midnight_gap:
  "prepareSalesData_in (\<lambda>d. if d = 19792 then 60 else 0)
     [\<lparr>date = 19791, units_sold = 1\<rparr>, \<lparr>date = 19793, units_sold = 2\<rparr>] = [1, 0] \<and>
   prepareSalesData_in (\<lambda>d. 0)
     [\<lparr>date = 19791, units_sold = 1\<rparr>, \<lparr>date = 19793, units_sold = 2\<rparr>] = [1, 0, 2]"
  by code_simp

text \<open>
  Where no midnight of the span is skipped, the series is as C5 says: its length is
  \<open>(d_max - d_min) + 1\<close>, the entry of each date of the span is the sum of the quantities
  of the observations on that date, and \<open>0\<close> for a date with no observation.
\<close>

lemma prepareSalesData_in_span:
  assumes "salesRecords \<noteq> []"
    and "\<forall>d. Min (date ` set salesRecords) \<le> d \<and> d \<le> Max (date ` set salesRecords)
               \<longrightarrow> z d = 0"
  shows "let d_min = Min (date ` set salesRecords);
             d_max = Max (date ` set salesRecords);
             series = prepareSalesData_in z salesRecords
         in length series = nat (d_max - d_min) + 1 \<and>
            (\<forall>d. d_min \<le> d \<and> d \<le> d_max \<longrightarrow>
               series ! nat (d - d_min) = sold_on d salesRecords \<and>
               (d \<notin> date ` set salesRecords \<longrightarrow> series ! nat (d - d_min) = 0))"
proof -
  let ?lo = "Min (date ` set salesRecords)" and ?hi = "Max (date ` set salesRecords)"
  have le: "?lo \<le> ?hi" using assms(1) by (rule Min_le_Max_dates)
  have len: "length (prepareSalesData_in z salesRecords) = nat (?hi - ?lo) + 1"
    using le by (simp add: prepareSalesData_in_eq [OF assms] nat_add_distrib)
  have nth: "prepareSalesData_in z salesRecords ! nat (d - ?lo) = sold_on d salesRecords"
    if "?lo \<le> d" "d \<le> ?hi" for d
    using that by (simp add: prepareSalesData_in_eq [OF assms])
  show ?thesis
    unfolding Let_def using len nth sold_on_absent by auto
qed

subsection \<open>C2: what the handler rejects\<close>




subsection \<open>C8: the dates of the forecast points\<close>

text \<open>
  C8, as the specification states it, dates the forecast points from the day after
  the last observed date. With one observation on day 1 and the request made on day
  20, the two forecast points are dated 21 and 22, not 2 and 3.
\<close>

theorem generate_dates_counterexample:
  "is_Success (generate leastSquares
     \<lparr>salesData = [\<lparr>date = 1, units_sold = 5\<rparr>], currentInventory = None, today = 20\<rparr>
     \<lparr>req_sku = ''A'', req_days = Some 2, req_method = Some ''linear''\<rparr>) \<and>
   map point_date (forecast (result (generate leastSquares
     \<lparr>salesData = [\<lparr>date = 1, units_sold = 5\<rparr>], currentInventory = None, today = 20\<rparr>
     \<lparr>req_sku = ''A'', req_days = Some 2, req_method = Some ''linear''\<rparr>))) = [21, 22] \<and>
   days_after_last_observed [\<lparr>date = 1, units_sold = 5\<rparr>] 2 = [2, 3]"
proof -
  let ?env = "\<lparr>salesData = [\<lparr>date = 1, units_sold = 5\<rparr>], currentInventory = None, today = 20\<rparr>"
  let ?req = "\<lparr>req_sku = ''A'', req_days = Some 2, req_method = Some ''linear''\<rparr>"
  obtain fc where fc: "length fc = clampDays (body_days ?req)"
      "is_Success (generate leastSquares ?env ?req)"
      "forecast (result (generate leastSquares ?env ?req)) = forecastData (today ?env) (req_sku ?req) fc"
    using generate_forecast [of ?req ?env leastSquares] by auto
  have "clampDays (body_days ?req) = 2" by (simp add: clampDays_def body_days_def)
  with fc(1) have "[0..<length fc] = [0, 1]" by (simp add: upt_rec)
  then have "map point_date (forecast (result (generate leastSquares ?env ?req))) = [21, 22]"
    by (simp add: fc(3) forecastData_dates)
  moreover have "days_after_last_observed [\<lparr>date = 1, units_sold = 5\<rparr>] 2 = [2, 3]"
    by (simp add: days_after_last_observed_def upt_rec)
  ultimately show ?thesis using fc(2) by simp
qed

text \<open>
  C8, amended: for every accepted request (a sku, and sales history for it), the
  forecast has one point per day of the clamped horizon, dated with the consecutive
  days that start the day after the day of the request (\<^verbatim>\<open>new Date()\<close>), whatever the
  last observed date is.
\<close>

theorem generate_dates_from_today:
  assumes "req_sku req \<noteq> []" and "salesData env \<noteq> []"
  shows "is_Success (generate fit env req) \<and>
         map point_date (forecast (result (generate fit env req)))
           = map (\<lambda>k. today env + 1 + int k) [0..<clampDays (body_days req)]"
proof -
  obtain fc where fc: "length fc = clampDays (body_days req)"
      "is_Success (generate fit env req)"
      "forecast (result (generate fit env req)) = forecastData (today env) (req_sku req) fc"
    using generate_forecast [OF assms, of fit] by blast
  then show ?thesis by (simp add: forecastData_dates)
qed

text \<open>
  The request of day 20 for two days.
\<close>

theorem generate_dates_from_today_witness:
  "req_sku \<lparr>req_sku = ''A'', req_days = Some 2, req_method = Some ''linear''\<rparr> \<noteq> [] \<and>
   salesData \<lparr>salesData = [\<lparr>date = 1, units_sold = 5\<rparr>], currentInventory = None,
               today = 20\<rparr> \<noteq> [] \<and>
   map point_date (forecast (result (generate leastSquares
     \<lparr>salesData = [\<lparr>date = 1, units_sold = 5\<rparr>], currentInventory = None, today = 20\<rparr>
     \<lparr>req_sku = ''A'', req_days = Some 2, req_method = Some ''linear''\<rparr>))) = [21, 22]"
  using generate_dates_from_today
          [of "\<lparr>req_sku = ''A'', req_days = Some 2, req_method = Some ''linear''\<rparr>"
              "\<lparr>salesData = [\<lparr>date = 1, units_sold = 5\<rparr>], currentInventory = None, today = 20\<rparr>"
              leastSquares]
  by (simp add: clampDays_def body_days_def upt_rec)

subsection \<open>C10: a method the switch does not know\<close>

text \<open>
  C10: a request whose method is none of \<open>linear\<close>, \<open>exponential\<close>, \<open>seasonal\<close> is not
  rejected for it: when the request has a sku and sales history, the handler computes
  the combined forecast over the clamped horizon, answers with its values and reports
  the method \<open>combined\<close>.
\<close>

theorem generate_default_is_combined:
  assumes "req_sku req \<noteq> []" and "salesData env \<noteq> []"
    and "body_method req \<notin> {''linear'', ''exponential'', ''seasonal''}"
  shows "\<exists>c. combinedForecast fit (prepareSalesData (salesData env))
                (clampDays (body_days req)) = Inr c \<and>
             is_Success (generate fit env req) \<and>
             res_method (result (generate fit env req)) = ''combined'' \<and>
             map predicted_demand (forecast (result (generate fit env req))) = c"
proof -
  let ?ts = "prepareSalesData (salesData env)" and ?H = "clampDays (body_days req)"
  have d: "dispatch fit (body_method req) ?ts ?H = (combinedForecast fit ?ts ?H, ''combined'')"
    using assms(3) by (simp add: dispatch_def)
  obtain fc where fc: "fst (dispatch fit (body_method req) ?ts ?H) = Inr fc"
      "is_Success (generate fit env req)"
      "res_method (result (generate fit env req)) = snd (dispatch fit (body_method req) ?ts ?H)"
      "forecast (result (generate fit env req)) = forecastData (today env) (req_sku req) fc"
    using generate_forecast [OF assms(1,2), of fit] by blast
  then show ?thesis by (simp add: d forecastData_values)
qed

text \<open>
  The method \<open>bogus\<close>.
\<close>

theorem generate_default_is_combined_witness:
  "req_sku \<lparr>req_sku = ''A'', req_days = Some 2, req_method = Some ''bogus''\<rparr> \<noteq> [] \<and>
   salesData \<lparr>salesData = [\<lparr>date = 1, units_sold = 5\<rparr>], currentInventory = None,
               today = 20\<rparr> \<noteq> [] \<and>
   body_method \<lparr>req_sku = ''A'', req_days = Some 2, req_method = Some ''bogus''\<rparr>
     \<notin> {''linear'', ''exponential'', ''seasonal''} \<and>
   is_Success (generate leastSquares
     \<lparr>salesData = [\<lparr>date = 1, units_sold = 5\<rparr>], currentInventory = None, today = 20\<rparr>
     \<lparr>req_sku = ''A'', req_days = Some 2, req_method = Some ''bogus''\<rparr>) \<and>
   res_method (result (generate leastSquares
     \<lparr>salesData = [\<lparr>date = 1, units_sold = 5\<rparr>], currentInventory = None, today = 20\<rparr>
     \<lparr>req_sku = ''A'', req_days = Some 2, req_method = Some ''bogus''\<rparr>)) = ''combined''"
  using generate_default_is_combined
          [of "\<lparr>req_sku = ''A'', req_days = Some 2, req_method = Some ''bogus''\<rparr>"
              "\<lparr>salesData = [\<lparr>date = 1, units_sold = 5\<rparr>], currentInventory = None, today = 20\<rparr>"
              leastSquares]
  by (simp add: body_method_def)

subsection \<open>C9: priorities and order of the batch\<close>

text \<open>
  C9: a batch run over a non-empty inventory succeeds. Every entry of its result
  has priority high if its current stock is at most its reorder level, else medium if
  its predicted demand exceeds its current stock, else low. The result is the high
  entries, then the medium entries, then the low entries, each group in the order of
  the inventory.
\<close>

theorem generate_all_priority_order:
  assumes "inventory \<noteq> []"
  shows "\<exists>r. generate_all fit inventory salesOf requested_days = BatchSuccess r \<and>
           (let original = in_inventory_order fit salesOf
                             (case requested_days of None \<Rightarrow> 30 | Some d \<Rightarrow> d) inventory
            in forecasts r
                 = filter (\<lambda>f. entry_priority f = High) original
                   @ filter (\<lambda>f. entry_priority f = Medium) original
                   @ filter (\<lambda>f. entry_priority f = Low) original \<and>
               (\<forall>f \<in> set (forecasts r).
                  entry_priority f =
                    (if entry_currentStock f \<le> entry_reorderLevel f then High
                     else if entry_predictedDemand f > entry_currentStock f then Medium
                     else Low)))"
proof -
  let ?days = "case requested_days of None \<Rightarrow> 30 | Some d \<Rightarrow> d"
  let ?orig = "in_inventory_order fit salesOf ?days inventory"
  obtain us es where fold: "fold (batch_round fit salesOf ?days) inventory ([], []) = (us, es)"
    by (cases "fold (batch_round fit salesOf ?days) inventory ([], [])") auto
  have us: "us = ?orig"
    using fold_batch_round [of fit salesOf ?days inventory "[]" "[]"] by (simp add: fold)
  have set_eq: "set (js_sort byPriority ?orig) = set ?orig"
    by (simp add: js_sort_byPriority)
  have res: "generate_all fit inventory salesOf requested_days
               = BatchSuccess
                     \<lparr>totalSkus = length inventory,
                      successfulForecasts = length (js_sort byPriority ?orig),
                      errorCount = length es,
                      forecasts = js_sort byPriority ?orig,
                      highPriority =
                        length (filter (\<lambda>f. entry_priority f = High) (js_sort byPriority ?orig)),
                      mediumPriority =
                        length (filter (\<lambda>f. entry_priority f = Medium) (js_sort byPriority ?orig)),
                      reorderNeededCount = length (filter reorderNeeded (js_sort byPriority ?orig)),
                      errorDetails = es\<rparr>" (is "_ = BatchSuccess ?r")
    using assms unfolding generate_all_def Let_def fold us by simp
  have fs: "forecasts ?r = js_sort byPriority ?orig" by simp
  have blocks: "forecasts ?r
                 = filter (\<lambda>f. entry_priority f = High) ?orig
                   @ filter (\<lambda>f. entry_priority f = Medium) ?orig
                   @ filter (\<lambda>f. entry_priority f = Low) ?orig"
    unfolding fs by (rule js_sort_blocks)
  have rule: "\<forall>f \<in> set (forecasts ?r).
          entry_priority f =
            (if entry_currentStock f \<le> entry_reorderLevel f then High
             else if entry_predictedDemand f > entry_currentStock f then Medium else Low)"
    unfolding fs set_eq using in_inventory_order_priority by blast
  show ?thesis
    unfolding Let_def using res blocks rule by blast
qed

text \<open>
  Five items, one of them without sales history.
\<close>

theorem generate_all_priority_order_witness:
  "[\<lparr>item_sku = ''A'', item_name = ''a'', quantity = 100, reorder_level = 10\<rparr>,
    \<lparr>item_sku = ''X'', item_name = ''x'', quantity = 3, reorder_level = 10\<rparr>,
    \<lparr>item_sku = ''B'', item_name = ''b'', quantity = 1, reorder_level = 10\<rparr>,
    \<lparr>item_sku = ''C'', item_name = ''c'', quantity = 7, reorder_level = 5\<rparr>,
    \<lparr>item_sku = ''D'', item_name = ''d'', quantity = 0, reorder_level = 10\<rparr>] \<noteq> [] \<and>
   map (\<lambda>f. (entry_sku f, entry_priority f))
     (forecasts (batch (generate_all leastSquares
        [\<lparr>item_sku = ''A'', item_name = ''a'', quantity = 100, reorder_level = 10\<rparr>,
         \<lparr>item_sku = ''X'', item_name = ''x'', quantity = 3, reorder_level = 10\<rparr>,
         \<lparr>item_sku = ''B'', item_name = ''b'', quantity = 1, reorder_level = 10\<rparr>,
         \<lparr>item_sku = ''C'', item_name = ''c'', quantity = 7, reorder_level = 5\<rparr>,
         \<lparr>item_sku = ''D'', item_name = ''d'', quantity = 0, reorder_level = 10\<rparr>]
        (\<lambda>sku. if sku = ''X'' then [] else [\<lparr>date = 1, units_sold = 5\<rparr>])
        (Some 2))))
     = [(''B'', High), (''D'', High), (''C'', Medium), (''A'', Low)]"
proof -
  let ?inv = "[\<lparr>item_sku = ''A'', item_name = ''a'', quantity = 100, reorder_level = 10\<rparr>,
         \<lparr>item_sku = ''X'', item_name = ''x'', quantity = 3, reorder_level = 10\<rparr>,
         \<lparr>item_sku = ''B'', item_name = ''b'', quantity = 1, reorder_level = 10\<rparr>,
         \<lparr>item_sku = ''C'', item_name = ''c'', quantity = 7, reorder_level = 5\<rparr>,
         \<lparr>item_sku = ''D'', item_name = ''d'', quantity = 0, reorder_level = 10\<rparr>]"
  let ?sales = "\<lambda>sku. if sku = ''X'' then [] else [\<lparr>date = 1, units_sold = 5\<rparr>]"
  have orig: "in_inventory_order leastSquares ?sales 2 ?inv =
      [\<lparr>entry_sku = ''A'', entry_name = ''a'', entry_currentStock = 100,
         entry_reorderLevel = 10, entry_predictedDemand = 10, reorderNeeded = False,
         entry_priority = Low\<rparr>,
       \<lparr>entry_sku = ''B'', entry_name = ''b'', entry_currentStock = 1,
         entry_reorderLevel = 10, entry_predictedDemand = 10, reorderNeeded = True,
         entry_priority = High\<rparr>,
       \<lparr>entry_sku = ''C'', entry_name = ''c'', entry_currentStock = 7,
         entry_reorderLevel = 5, entry_predictedDemand = 10, reorderNeeded = True,
         entry_priority = Medium\<rparr>,
       \<lparr>entry_sku = ''D'', entry_name = ''d'', entry_currentStock = 0,
         entry_reorderLevel = 10, entry_predictedDemand = 10, reorderNeeded = True,
         entry_priority = High\<rparr>]"
    by code_simp
  from generate_all_priority_order [of ?inv leastSquares ?sales "Some 2"]
  obtain r where r: "generate_all leastSquares ?inv ?sales (Some 2) = BatchSuccess r"
    and fs: "forecasts r
               = filter (\<lambda>f. entry_priority f = High) (in_inventory_order leastSquares ?sales 2 ?inv)
                 @ filter (\<lambda>f. entry_priority f = Medium) (in_inventory_order leastSquares ?sales 2 ?inv)
                 @ filter (\<lambda>f. entry_priority f = Low) (in_inventory_order leastSquares ?sales 2 ?inv)"
    unfolding Let_def by auto
  have "map (\<lambda>f. (entry_sku f, entry_priority f)) (forecasts r)
          = [(''B'', High), (''D'', High), (''C'', Medium), (''A'', Low)]"
    unfolding fs orig by simp
  then show ?thesis by (simp add: r)
qed

end
